theory Spec2Isabelle
  imports Main "HOL-Library.AList"
begin

section \<open>Strings\<close>

text \<open>
  The installer works on JavaScript strings. They are modelled as \<open>string\<close>, a list of
  8-bit characters; \<open>toLowerCase\<close> maps the ASCII capitals to their small letters and
  leaves every other character alone, which is what JavaScript does on the ASCII file
  names and slugs the installer handles.
\<close>

definition toLowerChar :: "char \<Rightarrow> char" where
  "toLowerChar c =
     (let n = (of_char c :: nat) in if 65 \<le> n \<and> n \<le> 90 then char_of (n + 32) else c)"

definition toLowerCase :: "string \<Rightarrow> string" where
  "toLowerCase s = map toLowerChar s"

text \<open>\<open>s.startsWith(t)\<close>, \<open>s.endsWith(t)\<close> and \<open>s.includes(t)\<close>.\<close>

fun startsWith :: "string \<Rightarrow> string \<Rightarrow> bool" where
  "startsWith s [] = True"
| "startsWith [] (c # t) = False"
| "startsWith (a # s) (c # t) = (a = c \<and> startsWith s t)"

definition endsWith :: "string \<Rightarrow> string \<Rightarrow> bool" where
  "endsWith s t = startsWith (rev s) (rev t)"

fun includesStr :: "string \<Rightarrow> string \<Rightarrow> bool" where
  "includesStr [] t = (t = [])"
| "includesStr (a # s) t = (startsWith (a # s) t \<or> includesStr s t)"

text \<open>\<open>s.replace(/-/g, "_")\<close>: every hyphen becomes an underscore.\<close>

definition replaceHyphens :: "string \<Rightarrow> string" where
  "replaceHyphens s = map (\<lambda>c. if c = CHR ''-'' then CHR ''_'' else c) s"

text \<open>
  \<^verbatim>\<open>
  function modMatchesFilename(filename: string, projectSlug: string): boolean {
    const filenameLower = filename.toLowerCase();
    const slugLower = projectSlug.toLowerCase();
    const slugUnderscore = slugLower.replace(/-/g, "_");
    return (
      filenameLower.includes(slugLower) || filenameLower.includes(slugUnderscore)
    );
  }
  \<close>
\<close>

definition modMatchesFilename :: "string \<Rightarrow> string \<Rightarrow> bool" where
  "modMatchesFilename filename projectSlug =
     (let filenameLower = toLowerCase filename;
          slugLower = toLowerCase projectSlug;
          slugUnderscore = replaceHyphens slugLower
      in includesStr filenameLower slugLower \<or> includesStr filenameLower slugUnderscore)"

text \<open>
  \<open>findExistingMod\<close> and \<open>findExistingShader\<close> scan a directory listing. The listing
  is \<open>None\<close> when the directory does not exist (\<open>existsSync\<close> is false); the result is
  \<open>None\<close> for JavaScript's \<open>null\<close>.
  \<^verbatim>\<open>
  function findExistingMod(slug: string, searchDir: string): string | null {
    if (!existsSync(searchDir)) return null;
    const files = readdirSync(searchDir);
    for (const file of files) {
      if (file.endsWith(".jar") && modMatchesFilename(file, slug)) {
        return file;
      }
    }
    return null;
  }
  \<close>
\<close>

fun findExistingModLoop :: "string \<Rightarrow> string list \<Rightarrow> string option" where
  "findExistingModLoop slug [] = None"
| "findExistingModLoop slug (file # files) =
     (if endsWith file ''.jar'' \<and> modMatchesFilename file slug then Some file
      else findExistingModLoop slug files)"

definition findExistingMod :: "string \<Rightarrow> string list option \<Rightarrow> string option" where
  "findExistingMod slug searchDir =
     (case searchDir of None \<Rightarrow> None | Some files \<Rightarrow> findExistingModLoop slug files)"

fun findExistingShaderLoop :: "string \<Rightarrow> string list \<Rightarrow> string option" where
  "findExistingShaderLoop slug [] = None"
| "findExistingShaderLoop slug (file # files) =
     (if modMatchesFilename file slug then Some file
      else findExistingShaderLoop slug files)"

definition findExistingShader :: "string \<Rightarrow> string list option \<Rightarrow> string option" where
  "findExistingShader slug shaderpacksDir =
     (case shaderpacksDir of None \<Rightarrow> None | Some files \<Rightarrow> findExistingShaderLoop slug files)"

section \<open>Environment resolver\<close>

text \<open>A thrown JavaScript \<open>Error\<close> with its message, and the errors of the file system calls.\<close>

datatype exn = Error string | ENOENT string | EISDIR string

text \<open>
  \<open>!s\<close> for a value of type \<open>string | undefined\<close> (or \<open>string | null\<close>): true for the
  missing value and for the empty string.
\<close>

definition falsy :: "string option \<Rightarrow> bool" where
  "falsy v = (case v of None \<Rightarrow> True | Some s \<Rightarrow> s = [])"

text \<open>
  \<^verbatim>\<open>
  function getMinecraftDir(): string {
    const platform = process.platform;
    if (platform === "darwin") {
      return join(homedir(), "Library/Application Support/minecraft");
    }
    if (platform === "win32") {
      const appData = process.env.APPDATA;
      if (!appData) {
        throw new Error("APPDATA environment variable not found on Windows");
      }
      return join(appData, ".minecraft");
    }
    // Linux and others
    return join(homedir(), ".minecraft");
  }
  \<close>
  \<open>process.platform\<close>, \<open>homedir()\<close> and \<open>process.env.APPDATA\<close> are arguments; so is
  \<open>join\<close> of \<open>node:path\<close>, a library function outside the repository.
\<close>

definition getMinecraftDir ::
  "(string \<Rightarrow> string \<Rightarrow> string) \<Rightarrow> string \<Rightarrow> string \<Rightarrow> string option \<Rightarrow> exn + string" where
  "getMinecraftDir join platform homedir APPDATA =
     (if platform = ''darwin'' then Inr (join homedir ''Library/Application Support/minecraft'')
      else if platform = ''win32'' then
        (if falsy APPDATA then Inl (Error ''APPDATA environment variable not found on Windows'')
         else case APPDATA of
                None \<Rightarrow> Inl (Error ''APPDATA environment variable not found on Windows'')
              | Some appData \<Rightarrow> Inr (join appData ''.minecraft''))
      else Inr (join homedir ''.minecraft''))"

section \<open>Interactive input\<close>

text \<open>\<open>process.exit(code)\<close> ends the run; otherwise the computation goes on with a value.\<close>

datatype 'a proc = Exit nat | Continue 'a

text \<open>
  \<open>s.trim()\<close> removes white space at both ends: tab, line feed, vertical tab, form
  feed, carriage return and space among the 8-bit characters of the model.
\<close>

definition isWhiteSpace :: "char \<Rightarrow> bool" where
  "isWhiteSpace c = ((of_char c :: nat) \<in> {9, 10, 11, 12, 13, 32})"

definition trim :: "string \<Rightarrow> string" where
  "trim s = rev (dropWhile isWhiteSpace (rev (dropWhile isWhiteSpace s)))"

text \<open>
  \<^verbatim>\<open>
  const mcVersionPrompt = prompt(...);
  if (!mcVersionPrompt) {
    log("red", "Error: Minecraft version is required!");
    process.exit(1);
  }
  const mcVersion = mcVersionPrompt.trim();
  \<close>
  \<open>prompt\<close> returns \<open>string | null\<close>.
\<close>

definition readVersion :: "string option \<Rightarrow> string proc" where
  "readVersion mcVersionPrompt =
     (if falsy mcVersionPrompt then Exit 1
      else case mcVersionPrompt of None \<Rightarrow> Exit 1 | Some s \<Rightarrow> Continue (trim s))"

text \<open>\<open>cleanupPrompt?.toLowerCase() === "y"\<close>\<close>

definition readCleanup :: "string option \<Rightarrow> bool" where
  "readCleanup cleanupPrompt =
     (case cleanupPrompt of None \<Rightarrow> False | Some s \<Rightarrow> toLowerCase s = ''y'')"

section \<open>Backup directory name\<close>

text \<open>
  A \<open>Date\<close> is an instant; \<open>toISOString\<close> prints its UTC fields as
  \<open>YYYY-MM-DDTHH:mm:ss.sssZ\<close> (years beyond 9999 as \<open>+YYYYYY\<close>). The record holds those
  UTC fields.
\<close>

record date =
  year :: nat
  month :: nat
  day :: nat
  hours :: nat
  minutes :: nat
  seconds :: nat
  milliseconds :: nat

definition valid_date :: "date \<Rightarrow> bool" where
  "valid_date d =
     (year d \<le> 9999 \<and> 1 \<le> month d \<and> month d \<le> 12 \<and> 1 \<le> day d \<and> day d \<le> 31 \<and>
      hours d < 24 \<and> minutes d < 60 \<and> seconds d < 60 \<and> milliseconds d < 1000)"

definition digit :: "nat \<Rightarrow> char" where
  "digit n = char_of (48 + n mod 10)"

definition pad2 :: "nat \<Rightarrow> string" where
  "pad2 n = [digit (n div 10), digit n]"

definition pad3 :: "nat \<Rightarrow> string" where
  "pad3 n = [digit (n div 100), digit (n div 10), digit n]"

definition pad4 :: "nat \<Rightarrow> string" where
  "pad4 n = [digit (n div 1000), digit (n div 100), digit (n div 10), digit n]"

definition pad6 :: "nat \<Rightarrow> string" where
  "pad6 n = [digit (n div 100000), digit (n div 10000), digit (n div 1000),
             digit (n div 100), digit (n div 10), digit n]"

definition toISOString :: "date \<Rightarrow> string" where
  "toISOString d =
     (if year d \<le> 9999 then pad4 (year d) else CHR ''+'' # pad6 (year d)) @ ''-'' @
     pad2 (month d) @ ''-'' @ pad2 (day d) @ ''T'' @ pad2 (hours d) @ '':'' @
     pad2 (minutes d) @ '':'' @ pad2 (seconds d) @ ''.'' @ pad3 (milliseconds d) @ ''Z''"

text \<open>
  \<^verbatim>\<open>
  const timestamp = new Date()
    .toISOString()
    .replace(/[:.]/g, "-")
    .split("T")[0];
  const backupDir = join(homedir(), "Desktop", `minecraft_mods_backup_${timestamp}`);
  \<close>
  \<open>split("T")[0]\<close> is the text before the first \<open>T\<close>. \<open>backupDirName\<close> is the last
  component of \<open>backupDir\<close>.
\<close>

definition timestamp :: "date \<Rightarrow> string" where
  "timestamp now =
     takeWhile (\<lambda>c. c \<noteq> CHR ''T'')
       (map (\<lambda>c. if c = CHR '':'' \<or> c = CHR ''.'' then CHR ''-'' else c) (toISOString now))"

definition backupDirName :: "date \<Rightarrow> string" where
  "backupDirName now = ''minecraft_mods_backup_'' @ timestamp now"

section \<open>Summary\<close>

text \<open>
  \<^verbatim>\<open>
  const totalInstalled = localCopyCount + successCount + skipCount;
  if (failCount === 0) {
    log("green", `All ${totalInstalled} mods and shaders are ready!`);
  } else if (successCount > 0 || localCopyCount > 0) {
    log("yellow", `${totalInstalled} mods installed, but ${failCount} are not yet available ...`);
  } else {
    log("red", `No mods could be downloaded for Minecraft ${mcVersion}.`);
  }
  \<close>
  The three messages are the three constructors; the numbers they print are their
  arguments.
\<close>

datatype summary = AllReady nat | PartialSuccess nat nat | NoneDownloaded

definition summarize :: "nat \<Rightarrow> nat \<Rightarrow> nat \<Rightarrow> nat \<Rightarrow> summary" where
  "summarize localCopyCount successCount skipCount failCount =
     (let totalInstalled = localCopyCount + successCount + skipCount
      in if failCount = 0 then AllReady totalInstalled
         else if successCount > 0 \<or> localCopyCount > 0 then PartialSuccess totalInstalled failCount
         else NoneDownloaded)"

section \<open>File system\<close>

text \<open>
  A directory is the list of its entries in the order \<open>readdirSync\<close> returns them; an
  entry is a regular file with its content or a subdirectory. The installer touches the
  installed mods and shaderpacks directories, the two local staging directories (each
  \<open>None\<close> when it does not exist) and the backup folders on the desktop, found by
  their name; a backup folder is the pair of its \<open>mods\<close> and \<open>shaderpacks\<close>
  subfolders.
\<close>

datatype entry = File string | Directory

type_synonym dir = "(string \<times> entry) list"

record filesystem =
  MODS_DIR :: "dir option"
  SHADERPACKS_DIR :: "dir option"
  LOCAL_MODS_DIR :: "dir option"
  LOCAL_SHADERS_DIR :: "dir option"
  Desktop :: "string \<Rightarrow> (dir \<times> dir) option"

definition readdirSync :: "dir \<Rightarrow> string list" where
  "readdirSync d = map fst d"

text \<open>\<open>mkdirSync(path, { recursive: true })\<close> creates the directory unless it exists.\<close>

definition mkdirSync :: "dir option \<Rightarrow> dir option" where
  "mkdirSync d = (case d of None \<Rightarrow> Some [] | Some entries \<Rightarrow> Some entries)"

text \<open>
  \<open>copyFileSync(join(src, file), join(dst, file))\<close> throws when the source is missing
  or is a directory, when the destination directory is missing and when the
  destination is a directory; otherwise the destination holds the source's content.
  \<open>rmSync(join(d, file))\<close>, called with no option, throws on a missing path and on a
  directory.
\<close>

definition copyFileSync :: "string \<Rightarrow> dir \<Rightarrow> dir option \<Rightarrow> exn + dir" where
  "copyFileSync file src dst =
     (case map_of src file of
        None \<Rightarrow> Inl (ENOENT file)
      | Some Directory \<Rightarrow> Inl (EISDIR file)
      | Some (File bytes) \<Rightarrow>
          (case dst of
             None \<Rightarrow> Inl (ENOENT file)
           | Some d \<Rightarrow>
               (case map_of d file of
                  Some Directory \<Rightarrow> Inl (EISDIR file)
                | _ \<Rightarrow> Inr (AList.update file (File bytes) d))))"

definition rmSync :: "string \<Rightarrow> dir \<Rightarrow> exn + dir" where
  "rmSync file d =
     (case map_of d file of
        None \<Rightarrow> Inl (ENOENT file)
      | Some Directory \<Rightarrow> Inl (EISDIR file)
      | Some (File bytes) \<Rightarrow> Inr (AList.delete file d))"

text \<open>
  \<^verbatim>\<open>
  function checkExistingFile(filename: string, isShader: boolean): boolean {
    const searchDir = isShader ? SHADERPACKS_DIR : MODS_DIR;
    return existsSync(join(searchDir, filename));
  }
  \<close>
\<close>

definition existsSync :: "dir option \<Rightarrow> string \<Rightarrow> bool" where
  "existsSync d file = (case d of None \<Rightarrow> False | Some entries \<Rightarrow> map_of entries file \<noteq> None)"


definition checkExistingFile :: "filesystem \<Rightarrow> string \<Rightarrow> bool \<Rightarrow> bool" where
  "checkExistingFile fs file isShader =
     (let searchDir = (if isShader then SHADERPACKS_DIR fs else MODS_DIR fs)
      in existsSync searchDir file)"

section \<open>Cleanup stage\<close>

text \<open>
  \<^verbatim>\<open>
  for (const file of modFiles) {
    copyFileSync(join(MODS_DIR, file), join(backupModsDir, file));
    rmSync(join(MODS_DIR, file));
  }
  \<close>
  Nothing catches what the two calls throw: the loop stops there, with the files
  handled so far moved. The result is the exception, if any, the installed directory
  and the backup subfolder.
\<close>

fun backupLoop :: "string list \<Rightarrow> dir \<Rightarrow> dir \<Rightarrow> exn option \<times> dir \<times> dir" where
  "backupLoop [] installed backup = (None, installed, backup)"
| "backupLoop (file # rest) installed backup =
     (case copyFileSync file installed (Some backup) of
        Inl e \<Rightarrow> (Some e, installed, backup)
      | Inr backup' \<Rightarrow>
          (case rmSync file installed of
             Inl e \<Rightarrow> (Some e, installed, backup')
           | Inr installed' \<Rightarrow> backupLoop rest installed' backup'))"

text \<open>
  \<^verbatim>\<open>
  if (existsSync(MODS_DIR)) {
    const modFiles = readdirSync(MODS_DIR).filter((f) => f.endsWith(".jar"));
    if (modFiles.length > 0) { for (const file of modFiles) { ... } }
  }
  \<close>
  and the same for the shaderpacks, with no filter.
\<close>

definition backupDirectory ::
  "(string \<Rightarrow> bool) \<Rightarrow> dir option \<Rightarrow> dir \<Rightarrow> exn option \<times> dir option \<times> dir" where
  "backupDirectory keep installed backup =
     (case installed of
        None \<Rightarrow> (None, None, backup)
      | Some d \<Rightarrow>
          (case backupLoop (filter keep (readdirSync d)) d backup of
             (e, d', backup') \<Rightarrow> (e, Some d', backup')))"

text \<open>
  The stage at \<open>now\<close>: the backup folder is named by \<open>backupDirName now\<close>; its two
  subfolders are created unless they exist (\<open>mkdirSync\<close> with \<open>recursive\<close>); the mods
  are moved, then the shaderpacks. An exception ends the stage where it is thrown.
\<close>

definition backupFolder :: "filesystem \<Rightarrow> string \<Rightarrow> dir \<times> dir" where
  "backupFolder fs backupDir = (case Desktop fs backupDir of None \<Rightarrow> ([], []) | Some b \<Rightarrow> b)"

definition cleanupStage :: "date \<Rightarrow> filesystem \<Rightarrow> exn option \<times> filesystem" where
  "cleanupStage t fs =
     (let backupDir = backupDirName t
      in case backupFolder fs backupDir of
           (backupModsDir, backupShadersDir) \<Rightarrow>
             (case backupDirectory (\<lambda>f. endsWith f ''.jar'') (MODS_DIR fs) backupModsDir of
                (e1, mods', backupMods') \<Rightarrow>
                  (if e1 \<noteq> None then
                     (e1, fs\<lparr>MODS_DIR := mods',
                              Desktop := (Desktop fs)(backupDir \<mapsto> (backupMods', backupShadersDir))\<rparr>)
                   else case backupDirectory (\<lambda>f. True) (SHADERPACKS_DIR fs) backupShadersDir of
                          (e2, shaders', backupShaders') \<Rightarrow>
                            (e2, fs\<lparr>MODS_DIR := mods', SHADERPACKS_DIR := shaders',
                                     Desktop := (Desktop fs)(backupDir \<mapsto> (backupMods', backupShaders'))\<rparr>))))"

section \<open>Local merge\<close>

text \<open>The lines the local merge prints for a file, and for a missing staging directory.\<close>

datatype merge_line = AlreadyExists string | Copied string | NotFound

text \<open>
  \<^verbatim>\<open>
  for (const file of modFiles) {
    if (checkExistingFile(file, false)) {
      log("cyan", `  ${file} already exists, skipping`);
    } else {
      copyFileSync(join(LOCAL_MODS_DIR, file), join(MODS_DIR, file));
      log("green", `  Copied ${file}`);
      localCopyCount++;
    }
  }
  \<close>
  The loop carries the installed directory, \<open>localCopyCount\<close> and the lines printed.
\<close>

fun copyLoop ::
  "string list \<Rightarrow> dir \<Rightarrow> dir option \<Rightarrow> nat \<Rightarrow> merge_line list \<Rightarrow>
   exn option \<times> dir option \<times> nat \<times> merge_line list" where
  "copyLoop [] staging installed localCopyCount printed =
     (None, installed, localCopyCount, printed)"
| "copyLoop (file # rest) staging installed localCopyCount printed =
     (if existsSync installed file then
        copyLoop rest staging installed localCopyCount (printed @ [AlreadyExists file])
      else case copyFileSync file staging installed of
             Inl e \<Rightarrow> (Some e, installed, localCopyCount, printed)
           | Inr installed' \<Rightarrow>
               copyLoop rest staging (Some installed') (localCopyCount + 1)
                 (printed @ [Copied file]))"

definition copyLocal ::
  "(string \<Rightarrow> bool) \<Rightarrow> dir option \<Rightarrow> dir option \<Rightarrow> nat \<Rightarrow> merge_line list \<Rightarrow>
   exn option \<times> dir option \<times> nat \<times> merge_line list" where
  "copyLocal keep staging installed localCopyCount printed =
     (case staging of
        None \<Rightarrow> (None, installed, localCopyCount, printed @ [NotFound])
      | Some d \<Rightarrow> copyLoop (filter keep (readdirSync d)) d installed localCopyCount printed)"

record merge_result =
  thrown :: "exn option"
  after :: filesystem
  localCopyCount :: nat
  printed :: "merge_line list"

definition localMerge :: "filesystem \<Rightarrow> merge_result" where
  "localMerge fs =
     (case copyLocal (\<lambda>f. endsWith f ''.jar'') (LOCAL_MODS_DIR fs) (MODS_DIR fs) 0 [] of
        (e1, mods', n1, p1) \<Rightarrow>
          (if e1 \<noteq> None then
             \<lparr>thrown = e1, after = fs\<lparr>MODS_DIR := mods'\<rparr>, localCopyCount = n1, printed = p1\<rparr>
           else case copyLocal (\<lambda>f. True) (LOCAL_SHADERS_DIR fs) (SHADERPACKS_DIR fs) n1 p1 of
                  (e2, shaders', n2, p2) \<Rightarrow>
                    \<lparr>thrown = e2, after = fs\<lparr>MODS_DIR := mods', SHADERPACKS_DIR := shaders'\<rparr>,
                     localCopyCount = n2, printed = p2\<rparr>))"

section \<open>Remote fetch\<close>

record ModEntry =
  slug :: string
  name :: string

definition MODS :: "ModEntry list" where
  "MODS =
     [\<lparr>slug = ''fabric-api'', name = ''Fabric API''\<rparr>,
      \<lparr>slug = ''lambdynamiclights'', name = ''Lamb Dynamic Lights''\<rparr>,
      \<lparr>slug = ''modmenu'', name = ''Mod Menu''\<rparr>,
      \<lparr>slug = ''sodium'', name = ''Sodium''\<rparr>,
      \<lparr>slug = ''xaeros-minimap'', name = ''Xaero's Minimap''\<rparr>,
      \<lparr>slug = ''xaeros-world-map'', name = ''Xaero's World Map''\<rparr>]"

record FileEntry =
  url :: string
  filename :: string

record ModrinthVersion =
  version_number :: string
  files :: "FileEntry list"

text \<open>
  What \<open>await fetch(...)\<close> gives: the promise rejects (a network error), or there is a
  response with its \<open>ok\<close> flag and its body. The body of a registry answer either is
  not JSON (\<open>response.json()\<close> throws) or parses to \<open>null\<close> or to an array of
  releases. The registry is asked by slug and game version, the file server by URL.
\<close>

datatype 'a fetched = Rejected | Response bool 'a

datatype versions_body = NotJson | Json "ModrinthVersion list option"

record network =
  api :: "string \<Rightarrow> string \<Rightarrow> versions_body fetched"
  cdn :: "string \<Rightarrow> string fetched"

text \<open>\<open>xs[0]\<close>: \<open>undefined\<close> on the empty array.\<close>

definition first :: "'a list \<Rightarrow> 'a option" where
  "first xs = (case xs of [] \<Rightarrow> None | x # rest \<Rightarrow> Some x)"

text \<open>
  \<open>Bun.write(join(dir, file), bytes)\<close> creates or overwrites the file, creating the
  directory when it is missing; it throws when the path is a directory.
\<close>

definition bunWrite :: "string \<Rightarrow> string \<Rightarrow> dir option \<Rightarrow> exn + dir option" where
  "bunWrite file bytes d =
     (case d of
        None \<Rightarrow> Inr (Some [(file, File bytes)])
      | Some entries \<Rightarrow>
          (case map_of entries file of
             Some Directory \<Rightarrow> Inl (EISDIR file)
           | _ \<Rightarrow> Inr (Some (AList.update file (File bytes) entries))))"

text \<open>
  \<^verbatim>\<open>
  async function downloadMod(projectSlug, displayName, isShader, mcVersion): Promise<boolean> {
    try {
      const response = await fetch(apiUrl, ...);
      if (!response.ok) { return false; }
      const versions = (await response.json()) as ModrinthVersion[];
      if (!versions || versions.length === 0) { return false; }
      const latestVersion = versions[0];
      if (!latestVersion) { return false; }
      const file = latestVersion.files[0];
      if (!file) { return false; }
      const dest = join(isShader ? SHADERPACKS_DIR : MODS_DIR, file.filename);
      const fileResponse = await fetch(file.url, ...);
      if (!fileResponse.ok) { return false; }
      const arrayBuffer = await fileResponse.arrayBuffer();
      await Bun.write(dest, arrayBuffer);
      return true;
    } catch (error) { return false; }
  }
  \<close>
  Every exception inside is caught and gives \<open>false\<close>. The result is the boolean and
  the file system.
\<close>

definition downloadMod ::
  "network \<Rightarrow> filesystem \<Rightarrow> string \<Rightarrow> bool \<Rightarrow> string \<Rightarrow> bool \<times> filesystem" where
  "downloadMod net fs projectSlug isShader mcVersion =
     (case api net projectSlug mcVersion of
        Rejected \<Rightarrow> (False, fs)
      | Response ok body \<Rightarrow>
          (if \<not> ok then (False, fs)
           else (case body of
             NotJson \<Rightarrow> (False, fs)
           | Json None \<Rightarrow> (False, fs)
           | Json (Some versions) \<Rightarrow>
               (if length versions = 0 then (False, fs)
                else (case first versions of
                  None \<Rightarrow> (False, fs)
                | Some latestVersion \<Rightarrow>
                    (case first (files latestVersion) of
                       None \<Rightarrow> (False, fs)
                     | Some file \<Rightarrow>
                         (case cdn net (url file) of
                            Rejected \<Rightarrow> (False, fs)
                          | Response fileOk bytes \<Rightarrow>
                              (if \<not> fileOk then (False, fs)
                               else if isShader then
                                 (case bunWrite (filename file) bytes (SHADERPACKS_DIR fs) of
                                    Inl e \<Rightarrow> (False, fs)
                                  | Inr d \<Rightarrow> (True, fs\<lparr>SHADERPACKS_DIR := d\<rparr>))
                               else
                                 (case bunWrite (filename file) bytes (MODS_DIR fs) of
                                    Inl e \<Rightarrow> (False, fs)
                                  | Inr d \<Rightarrow> (True, fs\<lparr>MODS_DIR := d\<rparr>))))))))))"

text \<open>The counters of the remote fetch.\<close>

record counters =
  successCount :: nat
  failCount :: nat
  skipCount :: nat

text \<open>
  \<^verbatim>\<open>
  for (const mod of MODS) {
    const existingMod = findExistingMod(mod.slug, MODS_DIR);
    if (existingMod) {
      skipCount++;
    } else {
      const success = await downloadMod(mod.slug, mod.name, false, mcVersion);
      if (success) { successCount++; } else { failCount++; }
    }
    await Bun.sleep(500);
  }
  \<close>
  \<open>if (existingMod)\<close> is the truth value of a \<open>string | null\<close>.
\<close>

definition fetchMod ::
  "network \<Rightarrow> string \<Rightarrow> ModEntry \<Rightarrow> filesystem \<times> counters \<Rightarrow> filesystem \<times> counters" where
  "fetchMod net mcVersion m st =
     (case st of (fs, c) \<Rightarrow>
        (let existingMod = findExistingMod (slug m) (map_option readdirSync (MODS_DIR fs))
         in if \<not> falsy existingMod then (fs, c\<lparr>skipCount := skipCount c + 1\<rparr>)
            else (case downloadMod net fs (slug m) False mcVersion of
                    (success, fs') \<Rightarrow>
                      (if success then (fs', c\<lparr>successCount := successCount c + 1\<rparr>)
                       else (fs', c\<lparr>failCount := failCount c + 1\<rparr>)))))"

fun fetchMods ::
  "network \<Rightarrow> string \<Rightarrow> ModEntry list \<Rightarrow> filesystem \<times> counters \<Rightarrow> filesystem \<times> counters" where
  "fetchMods net mcVersion [] st = st"
| "fetchMods net mcVersion (m # rest) st = fetchMods net mcVersion rest (fetchMod net mcVersion m st)"

text \<open>
  \<^verbatim>\<open>
  const existingShader = findExistingShader("complementary");
  if (existingShader) {
    skipCount++;
  } else {
    const success = await downloadMod("complementary-reimagined", "Complementary Reimagined", true, mcVersion);
    if (success) { successCount++; } else { failCount++; }
  }
  \<close>
\<close>

definition fetchShader ::
  "network \<Rightarrow> string \<Rightarrow> filesystem \<times> counters \<Rightarrow> filesystem \<times> counters" where
  "fetchShader net mcVersion st =
     (case st of (fs, c) \<Rightarrow>
        (let existingShader =
               findExistingShader ''complementary'' (map_option readdirSync (SHADERPACKS_DIR fs))
         in if \<not> falsy existingShader then (fs, c\<lparr>skipCount := skipCount c + 1\<rparr>)
            else (case downloadMod net fs ''complementary-reimagined'' True mcVersion of
                    (success, fs') \<Rightarrow>
                      (if success then (fs', c\<lparr>successCount := successCount c + 1\<rparr>)
                       else (fs', c\<lparr>failCount := failCount c + 1\<rparr>)))))"

section \<open>The run\<close>

text \<open>
  What a run depends on besides the file system: the two answers typed at the prompts,
  whether the installer artifact is there or can be fetched, whether \<open>java -version\<close>
  and the loader installer succeed, the time, and the network.
\<close>

record world =
  versionAnswer :: "string option"
  cleanupAnswer :: "string option"
  installerAvailable :: bool
  javaAvailable :: bool
  loaderInstalls :: bool
  now :: date
  net :: network

text \<open>
  A run ends in \<open>process.exit(1)\<close> or reaches the end of \<open>main\<close> with its summary.
  An exception that leaves \<open>main\<close> is handled by
  \<^verbatim>\<open>
  main().catch((error) => {
    log("red", `Fatal error: ${error}`);
    process.exit(1);
  });
  \<close>
\<close>

datatype ending = Fatal exn | Exited nat | Done summary

record run =
  ending :: ending
  disk :: filesystem
  copied :: nat
  tally :: counters
  lines :: "merge_line list"

definition exitCode :: "ending \<Rightarrow> nat" where
  "exitCode e = (case e of Fatal err \<Rightarrow> 1 | Exited n \<Rightarrow> n | Done s \<Rightarrow> 0)"

definition zero :: counters where
  "zero = \<lparr>successCount = 0, failCount = 0, skipCount = 0\<rparr>"

definition stopped :: "ending \<Rightarrow> filesystem \<Rightarrow> run" where
  "stopped e fs = \<lparr>ending = e, disk = fs, copied = 0, tally = zero, lines = []\<rparr>"

text \<open>
  Step 2 creates the two installed directories; step 3 is the cleanup stage when the
  answer to the second prompt was yes, and nothing otherwise.
  \<^verbatim>\<open>
  mkdirSync(MODS_DIR, { recursive: true });
  mkdirSync(SHADERPACKS_DIR, { recursive: true });
  if (shouldCleanup) { ... } else { log("green", "[3/5] Skipping cleanup..."); }
  \<close>
\<close>

definition createDirectories :: "filesystem \<Rightarrow> filesystem" where
  "createDirectories fs =
     fs\<lparr>MODS_DIR := mkdirSync (MODS_DIR fs), SHADERPACKS_DIR := mkdirSync (SHADERPACKS_DIR fs)\<rparr>"

definition cleanupStep :: "bool \<Rightarrow> date \<Rightarrow> filesystem \<Rightarrow> exn option \<times> filesystem" where
  "cleanupStep shouldCleanup t fs = (if shouldCleanup then cleanupStage t fs else (None, fs))"

text \<open>The stages of \<open>main\<close> after the loader is installed: steps 2 to 5 and the summary.\<close>

definition install :: "world \<Rightarrow> string \<Rightarrow> bool \<Rightarrow> filesystem \<Rightarrow> run" where
  "install w mcVersion shouldCleanup fs =
     (case cleanupStep shouldCleanup (now w) (createDirectories fs) of
        (Some e, fs3) \<Rightarrow> stopped (Fatal e) fs3
      | (None, fs3) \<Rightarrow>
          (let merged = localMerge fs3
           in case thrown merged of
                Some e \<Rightarrow>
                  \<lparr>ending = Fatal e, disk = after merged, copied = localCopyCount merged,
                   tally = zero, lines = printed merged\<rparr>
              | None \<Rightarrow>
                  (case fetchShader (net w) mcVersion
                          (fetchMods (net w) mcVersion MODS (after merged, zero)) of
                     (fs5, c) \<Rightarrow>
                       \<lparr>ending = Done (summarize (localCopyCount merged) (successCount c)
                                         (skipCount c) (failCount c)),
                        disk = fs5, copied = localCopyCount merged, tally = c,
                        lines = printed merged\<rparr>)))"

definition main :: "world \<Rightarrow> filesystem \<Rightarrow> run" where
  "main w fs =
     (case readVersion (versionAnswer w) of
        Exit n \<Rightarrow> stopped (Exited n) fs
      | Continue mcVersion \<Rightarrow>
          (let shouldCleanup = readCleanup (cleanupAnswer w)
           in if \<not> installerAvailable w then stopped (Exited 1) fs
              else if \<not> javaAvailable w then stopped (Exited 1) fs
              else if \<not> loaderInstalls w then stopped (Exited 1) fs
              else install w mcVersion shouldCleanup fs))"

section \<open>Example runs\<close>

text \<open>
  Concrete inputs for the runs evaluated below: a registry that has no release of any
  package for the requested version, two instants of one day, a world in which the
  prompts are answered with \<open>1.21.10\<close> and the given cleanup answer and every
  prerequisite is met, and a few file systems.
\<close>

definition emptyRegistry :: network where
  "emptyRegistry =
     \<lparr>api = (\<lambda>projectSlug mcVersion. Response True (Json (Some []))),
      cdn = (\<lambda>address. Rejected)\<rparr>"

definition morning :: date where
  "morning = \<lparr>year = 2026, month = 11, day = 2, hours = 9, minutes = 15, seconds = 30,
              milliseconds = 0\<rparr>"

definition evening :: date where
  "evening = \<lparr>year = 2026, month = 11, day = 2, hours = 21, minutes = 40, seconds = 7,
              milliseconds = 0\<rparr>"

definition answered :: "string option \<Rightarrow> date \<Rightarrow> network \<Rightarrow> world" where
  "answered cleanup t n =
     \<lparr>versionAnswer = Some ''1.21.10'', cleanupAnswer = cleanup, installerAvailable = True,
      javaAvailable = True, loaderInstalls = True, now = t, net = n\<rparr>"

definition emptyDisk :: filesystem where
  "emptyDisk =
     \<lparr>MODS_DIR = None, SHADERPACKS_DIR = None, LOCAL_MODS_DIR = None,
      LOCAL_SHADERS_DIR = None, Desktop = (\<lambda>backupDir. None)\<rparr>"

definition sixMods :: dir where
  "sixMods =
     [(''fabric-api-0.136.0+1.21.10.jar'', File ''a''),
      (''lambdynamiclights-4.8.2.jar'', File ''b''),
      (''modmenu-16.0.0.jar'', File ''c''),
      (''sodium-fabric-0.7.2.jar'', File ''d''),
      (''Xaeros_Minimap_25.2.10.jar'', File ''e''),
      (''xaeros_world_map-1.39.12.jar'', File ''f'')]"

definition stagedMod :: dir where
  "stagedMod = [(''my-custom-mod.jar'', File ''m'')]"

definition registryWithoutSodium :: network where
  "registryWithoutSodium =
     \<lparr>api = (\<lambda>projectSlug mcVersion.
               if projectSlug = ''sodium'' then Response True (Json (Some []))
               else Response True (Json (Some
                 [\<lparr>version_number = ''1.0.0'',
                   files = [\<lparr>url = projectSlug, filename = projectSlug @ ''.jar''\<rparr>]\<rparr>]))),
      cdn = (\<lambda>address. Response True ''bytes'')\<rparr>"

definition threeModsAndNotes :: dir where
  "threeModsAndNotes =
     [(''fabric-api-0.136.0+1.21.10.jar'', File ''a''),
      (''notes.txt'', File ''n''),
      (''modmenu-16.0.0.jar'', File ''c''),
      (''sodium-fabric-0.7.2.jar'', File ''d'')]"

definition oneShader :: dir where
  "oneShader = [(''ComplementaryReimagined_r5.5.1.zip'', File ''z'')]"

text \<open>
  A disk with one mod, the disk after a cleanup in the morning and the download of
  another mod, and a disk whose shaderpacks directory holds an unpacked shader pack (a
  subdirectory) while a mod waits in local staging.
\<close>

definition firstDisk :: filesystem where
  "firstDisk = emptyDisk\<lparr>MODS_DIR := Some [(''a.jar'', File ''A'')], SHADERPACKS_DIR := Some []\<rparr>"

definition secondDisk :: filesystem where
  "secondDisk = (snd (cleanupStage morning firstDisk))\<lparr>MODS_DIR := Some [(''b.jar'', File ''B'')]\<rparr>"

definition unpackedShaderDisk :: filesystem where
  "unpackedShaderDisk =
     emptyDisk\<lparr>MODS_DIR := Some threeModsAndNotes,
               SHADERPACKS_DIR := Some [(''BSL_v8.4'', Directory), (''old.zip'', File ''o'')],
               LOCAL_MODS_DIR := Some stagedMod\<rparr>"

definition cleanDisk :: filesystem where
  "cleanDisk = emptyDisk\<lparr>MODS_DIR := Some threeModsAndNotes, SHADERPACKS_DIR := Some oneShader\<rparr>"



section \<open>Substring matching\<close>

lemma startsWith_iff: "startsWith s t \<longleftrightarrow> (\<exists>q. s = t @ q)"
  by (induction s t rule: startsWith.induct) auto

lemma includes_iff: "includesStr s t \<longleftrightarrow> (\<exists>p q. s = p @ t @ q)"
proof (induction s)
  case Nil
  then show ?case by auto
next
  case (Cons a s)
  show ?case
  proof
    assume "includesStr (a # s) t"
    then consider "startsWith (a # s) t" | "includesStr s t" by auto
    then show "\<exists>p q. a # s = p @ t @ q"
    proof cases
      case 1
      then obtain q where "a # s = t @ q" using startsWith_iff by blast
      then have "a # s = [] @ t @ q" by simp
      then show ?thesis by blast
    next
      case 2
      then obtain p q where "s = p @ t @ q" using Cons.IH by blast
      then have "a # s = (a # p) @ t @ q" by simp
      then show ?thesis by blast
    qed
  next
    assume "\<exists>p q. a # s = p @ t @ q"
    then obtain p q where pq: "a # s = p @ t @ q" by blast
    show "includesStr (a # s) t"
    proof (cases p)
      case Nil
      with pq have "startsWith (a # s) t" using startsWith_iff by auto
      then show ?thesis by simp
    next
      case (Cons b p')
      with pq have "s = p' @ t @ q" by simp
      then have "includesStr s t" using Cons.IH by blast
      then show ?thesis by simp
    qed
  qed
qed

lemma endsWith_iff: "endsWith s t \<longleftrightarrow> (\<exists>p. s = p @ t)"
proof -
  have "endsWith s t \<longleftrightarrow> (\<exists>q. rev s = rev t @ q)"
    by (simp add: endsWith_def startsWith_iff)
  also have "\<dots> \<longleftrightarrow> (\<exists>p. s = p @ t)"
  proof
    assume "\<exists>q. rev s = rev t @ q"
    then obtain q where "rev s = rev t @ q" by blast
    then have "rev (rev s) = rev (rev t @ q)" by simp
    then have "s = rev q @ t" by simp
    then show "\<exists>p. s = p @ t" by blast
  next
    assume "\<exists>p. s = p @ t"
    then obtain p where "s = p @ t" by blast
    then have "rev s = rev t @ rev p" by simp
    then show "\<exists>q. rev s = rev t @ q" by blast
  qed
  finally show ?thesis .
qed

section \<open>Claims about the existing-installation check\<close>

text \<open>
  C3. \<open>modMatchesFilename\<close> is true exactly when the lowercased file name contains, as
  a substring, the lowercased slug or the lowercased slug with each hyphen replaced by
  an underscore. So \<open>sodium-fabric-0.5.8.jar\<close> matches \<open>sodium\<close>,
  \<open>modmenu-9.0.0.jar\<close> does not, the underscore form of \<open>xaeros-minimap\<close> matches
  and a name that separates the words of the slug in another way does not.
\<close>

theorem modMatchesFilename_substring:
  "(modMatchesFilename fname projectSlug \<longleftrightarrow>
      (\<exists>p q. toLowerCase fname = p @ toLowerCase projectSlug @ q) \<or>
      (\<exists>p q. toLowerCase fname =
               p @ map (\<lambda>c. if c = CHR ''-'' then CHR ''_'' else c) (toLowerCase projectSlug) @ q)) \<and>
   modMatchesFilename ''sodium-fabric-0.5.8.jar'' ''sodium'' \<and>
   \<not> modMatchesFilename ''modmenu-9.0.0.jar'' ''sodium'' \<and>
   modMatchesFilename ''Xaeros_Minimap_25.2.10_Fabric_1.21.8.jar'' ''xaeros-minimap'' \<and>
   \<not> modMatchesFilename ''xaeros.minimap-25.2.10.jar'' ''xaeros-minimap''"
proof -
  have general: "modMatchesFilename fname projectSlug \<longleftrightarrow>
      (\<exists>p q. toLowerCase fname = p @ toLowerCase projectSlug @ q) \<or>
      (\<exists>p q. toLowerCase fname =
               p @ map (\<lambda>c. if c = CHR ''-'' then CHR ''_'' else c) (toLowerCase projectSlug) @ q)"
    by (simp add: modMatchesFilename_def Let_def includes_iff replaceHyphens_def)
  have a: "modMatchesFilename ''sodium-fabric-0.5.8.jar'' ''sodium''" by code_simp
  have b: "\<not> modMatchesFilename ''modmenu-9.0.0.jar'' ''sodium''" by code_simp
  have c: "modMatchesFilename ''Xaeros_Minimap_25.2.10_Fabric_1.21.8.jar'' ''xaeros-minimap''"
    by code_simp
  have d: "\<not> modMatchesFilename ''xaeros.minimap-25.2.10.jar'' ''xaeros-minimap''" by code_simp
  from general a b c d show ?thesis by blast
qed

subsection \<open>The scans\<close>

lemma findExistingModLoop_Some:
  "findExistingModLoop s fs = Some f \<Longrightarrow> f \<in> set fs \<and> endsWith f ''.jar'' \<and> modMatchesFilename f s"
  by (induction fs) (auto split: if_splits)

lemma findExistingModLoop_filter:
  "findExistingModLoop s fs = findExistingModLoop s (filter (\<lambda>f. endsWith f ''.jar'') fs)"
  by (induction fs) auto

lemma findExistingModLoop_find:
  "findExistingModLoop s fs = List.find (\<lambda>f. endsWith f ''.jar'' \<and> modMatchesFilename f s) fs"
  by (induction fs) auto

lemma findExistingShaderLoop_find:
  "findExistingShaderLoop s fs = List.find (\<lambda>f. modMatchesFilename f s) fs"
  by (induction fs) auto

text \<open>
  C10. The scan of the installed mods only ever returns a file whose name ends with
  \<open>.jar\<close>, and the files with another ending are invisible to it: the result is the
  same with them removed from the listing, whatever the slug. The scan of the
  shaderpacks returns the first file that matches the slug, with no condition on the
  ending.
\<close>

theorem findExistingMod_jar_only:
  "(findExistingMod s d = Some f \<longrightarrow> (\<exists>p. f = p @ ''.jar'') \<and> modMatchesFilename f s) \<and>
   findExistingMod s (Some fs) =
     findExistingMod s (Some (filter (\<lambda>f. \<exists>p. f = p @ ''.jar'') fs)) \<and>
   findExistingShader s (Some fs) = List.find (\<lambda>f. modMatchesFilename f s) fs"
proof -
  have 1: "findExistingMod s d = Some f \<longrightarrow> (\<exists>p. f = p @ ''.jar'') \<and> modMatchesFilename f s"
    using findExistingModLoop_Some [of s _ f]
    by (auto simp: findExistingMod_def endsWith_iff split: option.splits)
  have "(\<lambda>f. \<exists>p. f = p @ ''.jar'') = (\<lambda>f. endsWith f ''.jar'')"
    by (simp add: endsWith_iff)
  then have 2: "findExistingMod s (Some fs) =
     findExistingMod s (Some (filter (\<lambda>f. \<exists>p. f = p @ ''.jar'') fs))"
    using findExistingModLoop_filter [of s fs] by (simp add: findExistingMod_def)
  have 3: "findExistingShader s (Some fs) = List.find (\<lambda>f. modMatchesFilename f s) fs"
    by (simp add: findExistingShader_def findExistingShaderLoop_find)
  from 1 2 3 show ?thesis by blast
qed

theorem findExistingMod_jar_only_witness:
  "findExistingMod ''sodium'' (Some [''sodium-notes.txt'', ''sodium-fabric-0.5.8.jar''])
     = Some ''sodium-fabric-0.5.8.jar'' \<and>
   modMatchesFilename ''sodium-notes.txt'' ''sodium'' \<and>
   findExistingMod ''sodium'' (Some [''sodium-notes.txt'']) = None \<and>
   findExistingShader ''sodium'' (Some [''sodium-notes.txt'']) = Some ''sodium-notes.txt''"
proof -
  have a: "findExistingMod ''sodium'' (Some [''sodium-notes.txt'', ''sodium-fabric-0.5.8.jar''])
     = Some ''sodium-fabric-0.5.8.jar''" by code_simp
  have b: "modMatchesFilename ''sodium-notes.txt'' ''sodium''" by code_simp
  have "filter (\<lambda>f. \<exists>p. f = p @ ''.jar'') [''sodium-notes.txt''] = []"
    by (simp add: append_eq_Cons_conv Cons_eq_append_conv)
  then have c: "findExistingMod ''sodium'' (Some [''sodium-notes.txt'']) = None"
    using findExistingMod_jar_only [of "''sodium''" None "''x''" "[''sodium-notes.txt'']"]
    by (simp add: findExistingMod_def)
  have d: "findExistingShader ''sodium'' (Some [''sodium-notes.txt'']) = Some ''sodium-notes.txt''"
    using findExistingMod_jar_only [of "''sodium''" None "''x''" "[''sodium-notes.txt'']"] b
    by simp
  from a b c d show ?thesis by blast
qed

section \<open>Claims about the backup directory name\<close>

lemma of_char_digit: "(of_char (digit n) :: nat) = 48 + n mod 10"
proof -
  have "48 + n mod 10 < 256" by (simp add: less_le_trans [OF mod_less_divisor])
  then show ?thesis by (simp add: digit_def)
qed

lemma digit_eq_iff: "digit a = digit b \<longleftrightarrow> a mod 10 = b mod 10"
proof
  assume "digit a = digit b"
  then have "(of_char (digit a) :: nat) = of_char (digit b)" by simp
  then show "a mod 10 = b mod 10" by (simp add: of_char_digit)
next
  assume "a mod 10 = b mod 10"
  then show "digit a = digit b" by (simp add: digit_def)
qed

lemma digit_neq_char:
  "(of_char c :: nat) < 48 \<or> 57 < (of_char c :: nat) \<Longrightarrow> digit n \<noteq> c"
proof
  assume a: "(of_char c :: nat) < 48 \<or> 57 < (of_char c :: nat)" and "digit n = c"
  then have "(of_char c :: nat) = 48 + n mod 10" using of_char_digit [of n] by simp
  moreover have "n mod 10 < 10" by simp
  ultimately show False using a by linarith
qed

lemma digit_neq [simp]:
  "digit n \<noteq> CHR ''T''" "digit n \<noteq> CHR '':''" "digit n \<noteq> CHR ''.''"
  by (rule digit_neq_char, simp)+

lemma timestamp_date:
  "year d \<le> 9999 \<Longrightarrow>
   timestamp d = pad4 (year d) @ ''-'' @ pad2 (month d) @ ''-'' @ pad2 (day d)"
  by (simp add: timestamp_def toISOString_def pad4_def pad2_def)

lemma div_mod_10_eq: "(a::nat) div 10 = b div 10 \<Longrightarrow> a mod 10 = b mod 10 \<Longrightarrow> a = b"
  by (metis div_mult_mod_eq)

lemma pad2_inj: "a < 100 \<Longrightarrow> b < 100 \<Longrightarrow> pad2 a = pad2 b \<Longrightarrow> a = b"
proof -
  assume a: "a < 100" and b: "b < 100" and e: "pad2 a = pad2 b"
  from e have hi: "a div 10 mod 10 = b div 10 mod 10" and lo: "a mod 10 = b mod 10"
    by (simp_all add: pad2_def digit_eq_iff)
  from a b have "a div 10 < 10" "b div 10 < 10" by simp_all
  with hi have "a div 10 = b div 10" by simp
  then show "a = b" using lo by (rule div_mod_10_eq)
qed

lemma pad4_inj: "a \<le> 9999 \<Longrightarrow> b \<le> 9999 \<Longrightarrow> pad4 a = pad4 b \<Longrightarrow> a = b"
proof -
  assume a: "a \<le> 9999" and b: "b \<le> 9999" and e: "pad4 a = pad4 b"
  from e have d3: "a div 1000 mod 10 = b div 1000 mod 10"
    and d2: "a div 100 mod 10 = b div 100 mod 10"
    and d1: "a div 10 mod 10 = b div 10 mod 10"
    and d0: "a mod 10 = b mod 10"
    by (simp_all add: pad4_def digit_eq_iff)
  from a b have "a div 1000 < 10" "b div 1000 < 10" by simp_all
  with d3 have e3: "a div 1000 = b div 1000" by simp
  have s3: "n div 1000 = n div 100 div 10" for n :: nat by (simp add: div_mult2_eq [symmetric])
  have s2: "n div 100 = n div 10 div 10" for n :: nat by (simp add: div_mult2_eq [symmetric])
  from e3 have "a div 100 div 10 = b div 100 div 10" by (simp only: s3)
  then have e2: "a div 100 = b div 100" using d2 by (rule div_mod_10_eq)
  then have "a div 10 div 10 = b div 10 div 10" by (simp only: s2)
  then have e1: "a div 10 = b div 10" using d1 by (rule div_mod_10_eq)
  then show "a = b" using d0 by (rule div_mod_10_eq)
qed

text \<open>
  C6, as amended. The backup directory name embeds the UTC calendar date of the run
  and nothing finer: it is \<open>minecraft_mods_backup_YYYY-MM-DD\<close>, and two runs have the
  same backup directory name exactly when they happen on the same UTC date.
\<close>

theorem backupDirName_date_only:
  assumes "valid_date a" and "valid_date b"
  shows "backupDirName a =
           ''minecraft_mods_backup_'' @ pad4 (year a) @ ''-'' @ pad2 (month a) @ ''-'' @ pad2 (day a) \<and>
         (backupDirName a = backupDirName b \<longleftrightarrow>
            year a = year b \<and> month a = month b \<and> day a = day b)"
proof -
  from assms have ya: "year a \<le> 9999" and yb: "year b \<le> 9999"
    and ma: "month a < 100" and mb: "month b < 100"
    and da: "day a < 100" and db: "day b < 100"
    by (simp_all add: valid_date_def)
  have fa: "timestamp a = pad4 (year a) @ ''-'' @ pad2 (month a) @ ''-'' @ pad2 (day a)"
    using ya by (rule timestamp_date)
  have fb: "timestamp b = pad4 (year b) @ ''-'' @ pad2 (month b) @ ''-'' @ pad2 (day b)"
    using yb by (rule timestamp_date)
  have len4: "length (pad4 (year a)) = length (pad4 (year b))" by (simp add: pad4_def)
  have len2: "length (pad2 (month a)) = length (pad2 (month b))" by (simp add: pad2_def)
  have "timestamp a = timestamp b \<longleftrightarrow>
          pad4 (year a) = pad4 (year b) \<and> pad2 (month a) = pad2 (month b) \<and>
          pad2 (day a) = pad2 (day b)"
    using len4 len2 by (simp add: fa fb)
  also have "\<dots> \<longleftrightarrow> year a = year b \<and> month a = month b \<and> day a = day b"
    using pad4_inj [OF ya yb] pad2_inj [OF ma mb] pad2_inj [OF da db] by auto
  finally have "backupDirName a = backupDirName b \<longleftrightarrow>
      year a = year b \<and> month a = month b \<and> day a = day b"
    by (simp add: backupDirName_def)
  then show ?thesis by (simp add: backupDirName_def fa)
qed



lemma digits: "digit 0 = CHR ''0''" "digit 1 = CHR ''1''" "digit 2 = CHR ''2''" "digit 6 = CHR ''6''"
  by (simp_all add: digit_def char_of_def bit_Suc_0_iff)

lemma pad_vals: "pad4 2026 = ''2026''" "pad2 11 = ''11''" "pad2 2 = ''02''"
  by (simp_all add: pad4_def pad2_def digit_def char_of_def bit_Suc_0_iff)

text \<open>
  C6 as stated fails: two runs of the same day, hours apart, have the same backup
  directory name.
\<close>

theorem backupDirName_seconds_counterexample:
  "valid_date \<lparr>year = 2026, month = 11, day = 2, hours = 9, minutes = 15, seconds = 30, milliseconds = 0\<rparr> \<and>
   valid_date \<lparr>year = 2026, month = 11, day = 2, hours = 21, minutes = 40, seconds = 7, milliseconds = 0\<rparr> \<and>
   backupDirName \<lparr>year = 2026, month = 11, day = 2, hours = 9, minutes = 15, seconds = 30, milliseconds = 0\<rparr> =
   backupDirName \<lparr>year = 2026, month = 11, day = 2, hours = 21, minutes = 40, seconds = 7, milliseconds = 0\<rparr> \<and>
   backupDirName \<lparr>year = 2026, month = 11, day = 2, hours = 9, minutes = 15, seconds = 30, milliseconds = 0\<rparr> =
   ''minecraft_mods_backup_2026-11-02''"
proof -
  have v1: "valid_date \<lparr>year = 2026, month = 11, day = 2, hours = 9, minutes = 15, seconds = 30, milliseconds = 0\<rparr>"
    by (simp add: valid_date_def)
  have v2: "valid_date \<lparr>year = 2026, month = 11, day = 2, hours = 21, minutes = 40, seconds = 7, milliseconds = 0\<rparr>"
    by (simp add: valid_date_def)
  have n1: "backupDirName \<lparr>year = 2026, month = 11, day = 2, hours = 9, minutes = 15, seconds = 30, milliseconds = 0\<rparr> =
    ''minecraft_mods_backup_2026-11-02''"
    by (simp add: backupDirName_def timestamp_date pad_vals)
  have n2: "backupDirName \<lparr>year = 2026, month = 11, day = 2, hours = 21, minutes = 40, seconds = 7, milliseconds = 0\<rparr> =
    ''minecraft_mods_backup_2026-11-02''"
    by (simp add: backupDirName_def timestamp_date pad_vals)
  from v1 v2 n1 n2 show ?thesis by simp
qed

text \<open>The last millisecond of a day and the first of the next give different names.\<close>

theorem backupDirName_date_only_witness:
  "backupDirName \<lparr>year = 2026, month = 11, day = 2, hours = 23, minutes = 59, seconds = 59, milliseconds = 999\<rparr> \<noteq>
   backupDirName \<lparr>year = 2026, month = 11, day = 3, hours = 0, minutes = 0, seconds = 0, milliseconds = 0\<rparr>"
proof -
  have a: "valid_date \<lparr>year = 2026, month = 11, day = 2, hours = 23, minutes = 59, seconds = 59, milliseconds = 999\<rparr>"
    by (simp add: valid_date_def)
  have b: "valid_date \<lparr>year = 2026, month = 11, day = 3, hours = 0, minutes = 0, seconds = 0, milliseconds = 0\<rparr>"
    by (simp add: valid_date_def)
  from backupDirName_date_only [OF a b, THEN conjunct2] show ?thesis by simp
qed


section \<open>Claims about the environment resolver and the prompts\<close>

text \<open>
  C7. The resolver returns the home directory joined with
  \<open>Library/Application Support/minecraft\<close> on \<open>darwin\<close>, the value of \<open>APPDATA\<close>
  joined with \<open>.minecraft\<close> on \<open>win32\<close>, and the home directory joined with
  \<open>.minecraft\<close> on every other platform; on \<open>win32\<close> with \<open>APPDATA\<close> unset (or
  empty, which JavaScript's \<open>!\<close> does not tell apart) it throws the configuration
  error.
\<close>

theorem getMinecraftDir_platforms:
  "getMinecraftDir join ''darwin'' home appData =
     Inr (join home ''Library/Application Support/minecraft'') \<and>
   getMinecraftDir join ''win32'' home (Some (c # cs)) = Inr (join (c # cs) ''.minecraft'') \<and>
   getMinecraftDir join ''win32'' home None =
     Inl (Error ''APPDATA environment variable not found on Windows'') \<and>
   getMinecraftDir join ''win32'' home (Some []) =
     Inl (Error ''APPDATA environment variable not found on Windows'') \<and>
   (platform \<noteq> ''darwin'' \<and> platform \<noteq> ''win32'' \<longrightarrow>
      getMinecraftDir join platform home appData = Inr (join home ''.minecraft''))"
  by (simp add: getMinecraftDir_def falsy_def)

text \<open>On Linux, with \<open>join\<close> putting a slash between its arguments.\<close>

theorem getMinecraftDir_platforms_witness:
  "getMinecraftDir (\<lambda>a b. a @ ''/'' @ b) ''linux'' ''/home/steve'' None =
     Inr ''/home/steve/.minecraft''"
  using getMinecraftDir_platforms
    [of "\<lambda>a b. a @ ''/'' @ b" "''/home/steve''" None "CHR ''x''" "[]" "''linux''"]
  by simp

text \<open>
  C9. A missing or empty answer to the version prompt ends the run with exit status 1,
  but the answer is tested before it is trimmed: an answer of one space is accepted
  and the requested game version is the empty string.
\<close>

theorem readVersion_blank_accepted:
  "readVersion None = Exit 1 \<and> readVersion (Some []) = Exit 1 \<and>
   readVersion (Some '' '') = Continue []"
  by (simp add: readVersion_def falsy_def trim_def isWhiteSpace_def)


section \<open>Claims about the run and its summary\<close>

lemma install_cleanup_throws:
  assumes "cleanupStep cl (now w) (createDirectories fs) = (Some e, fs3)"
  shows "install w v cl fs = stopped (Fatal e) fs3"
  using assms by (simp add: install_def)

lemma install_merge_throws:
  assumes "cleanupStep cl (now w) (createDirectories fs) = (None, fs3)"
    and "thrown (localMerge fs3) = Some e"
  shows "ending (install w v cl fs) = Fatal e"
  using assms by (simp add: install_def Let_def)

lemma install_completes:
  assumes "cleanupStep cl (now w) (createDirectories fs) = (None, fs3)"
    and "thrown (localMerge fs3) = None"
    and "fetchShader (net w) v (fetchMods (net w) v MODS (after (localMerge fs3), zero)) = (fs5, c)"
  shows "install w v cl fs =
    \<lparr>ending = Done (summarize (localCopyCount (localMerge fs3)) (successCount c) (skipCount c) (failCount c)),
     disk = fs5, copied = localCopyCount (localMerge fs3), tally = c, lines = printed (localMerge fs3)\<rparr>"
  using assms by (simp add: install_def Let_def)

lemma install_Done:
  assumes "ending (install w v cl fs) = Done x"
  shows "x = summarize (copied (install w v cl fs)) (successCount (tally (install w v cl fs)))
         (skipCount (tally (install w v cl fs))) (failCount (tally (install w v cl fs)))"
proof -
  obtain e3 fs3 where c: "cleanupStep cl (now w) (createDirectories fs) = (e3, fs3)"
    by (cases "cleanupStep cl (now w) (createDirectories fs)") 
  show ?thesis
  proof (cases e3)
    case (Some e)
    with c have "install w v cl fs = stopped (Fatal e) fs3"
      by (simp add: install_cleanup_throws)
    with assms show ?thesis by (simp add: stopped_def)
  next
    case None
    note n = this
    show ?thesis
    proof (cases "thrown (localMerge fs3)")
      case (Some e)
      with c n have "ending (install w v cl fs) = Fatal e" by (simp add: install_merge_throws)
      with assms show ?thesis by simp
    next
      case None
      obtain fs5 k where f: "fetchShader (net w) v (fetchMods (net w) v MODS (after (localMerge fs3), zero)) = (fs5, k)"
        by (cases "fetchShader (net w) v (fetchMods (net w) v MODS (after (localMerge fs3), zero))")
      from c n None f have i: "install w v cl fs =
        \<lparr>ending = Done (summarize (localCopyCount (localMerge fs3)) (successCount k) (skipCount k) (failCount k)),
         disk = fs5, copied = localCopyCount (localMerge fs3), tally = k, lines = printed (localMerge fs3)\<rparr>"
        by (simp add: install_completes)
      from assms show ?thesis by (simp add: i)
    qed
  qed
qed


lemma main_Done:
  assumes "ending (main w fs) = Done x"
  shows "x = summarize (copied (main w fs)) (successCount (tally (main w fs)))
         (skipCount (tally (main w fs))) (failCount (tally (main w fs)))"
proof (cases "readVersion (versionAnswer w)")
  case (Exit n)
  then have "ending (main w fs) = Exited n" by (simp add: main_def stopped_def)
  with assms show ?thesis by simp
next
  case (Continue v)
  show ?thesis
  proof (cases "installerAvailable w \<and> javaAvailable w \<and> loaderInstalls w")
    case True
    with Continue have m: "main w fs = install w v (readCleanup (cleanupAnswer w)) fs"
      by (simp add: main_def Let_def)
    from assms show ?thesis unfolding m by (rule install_Done)
  next
    case False
    with Continue have "main w fs = stopped (Exited 1) fs"
      by (auto simp: main_def Let_def)
    then have "ending (main w fs) = Exited 1" by (simp add: stopped_def)
    with assms show ?thesis by simp
  qed
qed


lemma summarize_PartialSuccess:
  "summarize l s k f = PartialSuccess n m \<longleftrightarrow>
     f \<noteq> 0 \<and> (0 < s \<or> 0 < l) \<and> n = l + s + k \<and> m = f"
  by (auto simp: summarize_def Let_def)

lemma summarize_NoneDownloaded:
  "summarize l s k f = NoneDownloaded \<longleftrightarrow> f \<noteq> 0 \<and> s = 0 \<and> l = 0"
  by (auto simp: summarize_def Let_def)

lemma summarize_AllReady:
  "summarize l s k f = AllReady n \<longleftrightarrow> f = 0 \<and> n = l + s + k"
  by (auto simp: summarize_def Let_def)

text \<open>
  C1, as amended. For every run that reaches the final summary with a nonzero
  unavailable counter, the program reports partial success exactly when at least one
  package was newly downloaded or copied from local staging, and total failure exactly
  when none was; packages that were already present do not decide the branch. The
  counter of already-present packages only enters the total that the partial-success
  and the all-ready messages print, which is the sum of the copied, downloaded and
  already-present counters; the partial-success message also prints the unavailable
  counter.
\<close>

theorem summary_partial_iff:
  assumes "ending (main w fs) = Done x"
  shows "((\<exists>n m. x = PartialSuccess n m) \<longleftrightarrow>
            failCount (tally (main w fs)) \<noteq> 0 \<and>
            (0 < successCount (tally (main w fs)) \<or> 0 < copied (main w fs))) \<and>
         (x = NoneDownloaded \<longleftrightarrow>
            failCount (tally (main w fs)) \<noteq> 0 \<and>
            successCount (tally (main w fs)) = 0 \<and> copied (main w fs) = 0) \<and>
         ((\<exists>n. x = AllReady n) \<longleftrightarrow> failCount (tally (main w fs)) = 0) \<and>
         (\<forall>n m. x = PartialSuccess n m \<longrightarrow>
            n = copied (main w fs) + successCount (tally (main w fs)) +
                skipCount (tally (main w fs)) \<and>
            m = failCount (tally (main w fs))) \<and>
         (\<forall>n. x = AllReady n \<longrightarrow>
            n = copied (main w fs) + successCount (tally (main w fs)) +
                skipCount (tally (main w fs)))"
proof -
  define l where "l = copied (main w fs)"
  define s where "s = successCount (tally (main w fs))"
  define k where "k = skipCount (tally (main w fs))"
  define f where "f = failCount (tally (main w fs))"
  have x: "x = summarize l s k f"
    unfolding l_def s_def k_def f_def using assms by (rule main_Done)
  have "((\<exists>n m. x = PartialSuccess n m) \<longleftrightarrow> f \<noteq> 0 \<and> (0 < s \<or> 0 < l)) \<and>
        (x = NoneDownloaded \<longleftrightarrow> f \<noteq> 0 \<and> s = 0 \<and> l = 0) \<and>
        ((\<exists>n. x = AllReady n) \<longleftrightarrow> f = 0) \<and>
        (\<forall>n m. x = PartialSuccess n m \<longrightarrow> n = l + s + k \<and> m = f) \<and>
        (\<forall>n. x = AllReady n \<longrightarrow> n = l + s + k)"
    by (simp add: x summarize_PartialSuccess summarize_NoneDownloaded summarize_AllReady)
  then show ?thesis unfolding l_def s_def k_def f_def .
qed


text \<open>
  C1 as stated fails: with the six mods already installed and the shader pack
  unavailable, packages were sourced (six were present) and yet the run reports total
  failure.
\<close>

theorem summary_present_only_counterexample:
  "ending (main (answered None morning emptyRegistry) (emptyDisk\<lparr>MODS_DIR := Some sixMods\<rparr>)) =
     Done NoneDownloaded \<and>
   tally (main (answered None morning emptyRegistry) (emptyDisk\<lparr>MODS_DIR := Some sixMods\<rparr>)) =
     \<lparr>successCount = 0, failCount = 1, skipCount = 6\<rparr> \<and>
   copied (main (answered None morning emptyRegistry) (emptyDisk\<lparr>MODS_DIR := Some sixMods\<rparr>)) = 0"
  by code_simp

text \<open>
  The six mods are installed, one more mod is copied from local staging and the shader
  pack is unavailable: partial success, and the total of 7 counts the six present.
\<close>

theorem summary_partial_iff_witness:
  "ending (main (answered None morning emptyRegistry)
      (emptyDisk\<lparr>MODS_DIR := Some sixMods, LOCAL_MODS_DIR := Some stagedMod\<rparr>)) =
     Done (PartialSuccess 7 1) \<and>
   skipCount (tally (main (answered None morning emptyRegistry)
      (emptyDisk\<lparr>MODS_DIR := Some sixMods, LOCAL_MODS_DIR := Some stagedMod\<rparr>))) = 6 \<and>
   (7::nat) =
     copied (main (answered None morning emptyRegistry)
       (emptyDisk\<lparr>MODS_DIR := Some sixMods, LOCAL_MODS_DIR := Some stagedMod\<rparr>)) +
     successCount (tally (main (answered None morning emptyRegistry)
       (emptyDisk\<lparr>MODS_DIR := Some sixMods, LOCAL_MODS_DIR := Some stagedMod\<rparr>))) +
     skipCount (tally (main (answered None morning emptyRegistry)
       (emptyDisk\<lparr>MODS_DIR := Some sixMods, LOCAL_MODS_DIR := Some stagedMod\<rparr>))) \<and>
   failCount (tally (main (answered None morning emptyRegistry)
      (emptyDisk\<lparr>MODS_DIR := Some sixMods, LOCAL_MODS_DIR := Some stagedMod\<rparr>))) = 1"
proof -
  define r where
    "r = main (answered None morning emptyRegistry)
           (emptyDisk\<lparr>MODS_DIR := Some sixMods, LOCAL_MODS_DIR := Some stagedMod\<rparr>)"
  have e: "ending r = Done (PartialSuccess 7 1)"
    unfolding r_def by code_simp
  have k: "skipCount (tally r) = 6"
    unfolding r_def by code_simp
  have "\<forall>n m. PartialSuccess 7 1 = PartialSuccess n m \<longrightarrow>
          n = copied r + successCount (tally r) + skipCount (tally r) \<and>
          m = failCount (tally r)"
    using summary_partial_iff [OF e [unfolded r_def]] unfolding r_def by (elim conjE)
  then have "(7::nat) = copied r + successCount (tally r) + skipCount (tally r) \<and>
             1 = failCount (tally r)"
    by blast
  then have t: "(7::nat) = copied r + successCount (tally r) + skipCount (tally r)"
    and f: "failCount (tally r) = 1" by simp_all
  from e k t f show ?thesis unfolding r_def by (intro conjI)
qed


section \<open>Claims about the remote fetch\<close>

lemma downloadMod_unavailable:
  assumes "api n s v = Response False body \<or>
           api n s v = Response True (Json None) \<or>
           api n s v = Response True (Json (Some [])) \<or>
           api n s v = Response True (Json (Some (\<lparr>version_number = lbl, files = []\<rparr> # others)))"
  shows "downloadMod n fs s isShader v = (False, fs)"
  using assms by (auto simp: downloadMod_def first_def)

text \<open>
  C5. For a package that is not installed yet, a registry answer with a non-success
  status, with the body \<open>null\<close>, with the empty array, or whose first release has an
  empty file list makes \<open>downloadMod\<close> return \<open>false\<close> with the file system untouched
  (for a mod and for a shader); the loop adds one to the unavailable counter, changes
  nothing else and goes on with the next package.
\<close>

theorem unavailable_is_counted:
  assumes "api n (slug m) v = Response False body \<or>
           api n (slug m) v = Response True (Json None) \<or>
           api n (slug m) v = Response True (Json (Some [])) \<or>
           api n (slug m) v =
             Response True (Json (Some (\<lparr>version_number = lbl, files = []\<rparr> # others)))"
    and "findExistingMod (slug m) (map_option readdirSync (MODS_DIR fs)) = None"
  shows "downloadMod n fs (slug m) isShader v = (False, fs) \<and>
         fetchMod n v m (fs, c) = (fs, c\<lparr>failCount := failCount c + 1\<rparr>) \<and>
         fetchMods n v (m # rest) (fs, c) =
           fetchMods n v rest (fs, c\<lparr>failCount := failCount c + 1\<rparr>)"
proof -
  have d: "downloadMod n fs (slug m) b v = (False, fs)" for b
    using assms(1) by (rule downloadMod_unavailable)
  have s: "fetchMod n v m (fs, c) = (fs, c\<lparr>failCount := failCount c + 1\<rparr>)"
    using assms(2) by (simp add: fetchMod_def falsy_def d)
  from d s show ?thesis by simp
qed

text \<open>
  The registry has every package but \<open>sodium\<close>, for which it answers \<open>[]\<close>: the loop
  counts it and goes on to \<open>modmenu\<close>; the whole run downloads six packages and counts
  one as unavailable.
\<close>

theorem unavailable_is_counted_witness:
  "fetchMods registryWithoutSodium ''1.21.10''
     [\<lparr>slug = ''sodium'', name = ''Sodium''\<rparr>, \<lparr>slug = ''modmenu'', name = ''Mod Menu''\<rparr>]
     (emptyDisk, zero) =
   fetchMods registryWithoutSodium ''1.21.10'' [\<lparr>slug = ''modmenu'', name = ''Mod Menu''\<rparr>]
     (emptyDisk, zero\<lparr>failCount := failCount zero + 1\<rparr>) \<and>
   tally (main (answered None morning registryWithoutSodium) emptyDisk) =
     \<lparr>successCount = 6, failCount = 1, skipCount = 0\<rparr>"
proof -
  have a: "api registryWithoutSodium (slug \<lparr>slug = ''sodium'', name = ''Sodium''\<rparr>) ''1.21.10'' =
      Response False NotJson \<or>
    api registryWithoutSodium (slug \<lparr>slug = ''sodium'', name = ''Sodium''\<rparr>) ''1.21.10'' =
      Response True (Json None) \<or>
    api registryWithoutSodium (slug \<lparr>slug = ''sodium'', name = ''Sodium''\<rparr>) ''1.21.10'' =
      Response True (Json (Some [])) \<or>
    api registryWithoutSodium (slug \<lparr>slug = ''sodium'', name = ''Sodium''\<rparr>) ''1.21.10'' =
      Response True (Json (Some (\<lparr>version_number = [], files = []\<rparr> # [])))"
    by (simp add: registryWithoutSodium_def)
  have b: "findExistingMod (slug \<lparr>slug = ''sodium'', name = ''Sodium''\<rparr>)
      (map_option readdirSync (MODS_DIR emptyDisk)) = None"
    by (simp add: emptyDisk_def findExistingMod_def)
  have t: "tally (main (answered None morning registryWithoutSodium) emptyDisk) =
     \<lparr>successCount = 6, failCount = 1, skipCount = 0\<rparr>"
    by code_simp
  from unavailable_is_counted [OF a b, of False zero "[\<lparr>slug = ''modmenu'', name = ''Mod Menu''\<rparr>]"] t
  show ?thesis by (intro conjI) (erule conjunct1 conjunct2 | assumption | elim conjE)+
qed


section \<open>Claims about the cleanup stage\<close>

lemma copyFileSync_Inr:
  "copyFileSync f src (Some dst) = Inr dst' \<Longrightarrow>
   \<exists>bytes. map_of src f = Some (File bytes) \<and> dst' = AList.update f (File bytes) dst"
  by (auto simp: copyFileSync_def split: option.splits entry.splits)

lemma rmSync_Inr:
  "rmSync f d = Inr d' \<Longrightarrow> d' = AList.delete f d \<and> (\<exists>bytes. map_of d f = Some (File bytes))"
  by (auto simp: rmSync_def split: option.splits entry.splits)

lemma backupLoop_untouched:
  "backupLoop fs d b = (e, d', b') \<Longrightarrow> map_of d f = None \<Longrightarrow>
   map_of d' f = None \<and> map_of b' f = map_of b f"
proof (induction fs arbitrary: d b)
  case Nil
  then show ?case by simp
next
  case (Cons g rest)
  show ?case
  proof (cases "copyFileSync g d (Some b)")
    case (Inl x)
    with Cons.prems show ?thesis by simp
  next
    case (Inr b1)
    then obtain bytes where g: "map_of d g = Some (File bytes)"
      and b1: "b1 = AList.update g (File bytes) b"
      using copyFileSync_Inr by blast
    from g Cons.prems(2) have ne: "f \<noteq> g" by auto
    show ?thesis
    proof (cases "rmSync g d")
      case (Inl x)
      with Inr Cons.prems b1 ne show ?thesis by (auto simp: update_conv')
    next
      case (Inr d1)
      then have d1: "d1 = AList.delete g d" using rmSync_Inr by blast
      from Inr \<open>copyFileSync g d (Some b) = Inr b1\<close> Cons.prems(1)
      have "backupLoop rest d1 b1 = (e, d', b')" by simp
      moreover have "map_of d1 f = None" using Cons.prems(2) d1 by (simp add: delete_conv')
      ultimately have "map_of d' f = None \<and> map_of b' f = map_of b1 f" by (rule Cons.IH)
      with b1 ne show ?thesis by (simp add: update_conv')
    qed
  qed
qed

lemma backupLoop_safe:
  "backupLoop fs d b = (e, d', b') \<Longrightarrow> map_of d f = Some x \<Longrightarrow>
   map_of d' f = Some x \<or> (map_of d' f = None \<and> map_of b' f = Some x)"
proof (induction fs arbitrary: d b)
  case Nil
  then show ?case by simp
next
  case (Cons g rest)
  show ?case
  proof (cases "copyFileSync g d (Some b)")
    case (Inl y)
    with Cons.prems show ?thesis by simp
  next
    case (Inr b1)
    note copy = this
    then obtain bytes where g: "map_of d g = Some (File bytes)"
      and b1: "b1 = AList.update g (File bytes) b"
      using copyFileSync_Inr by blast
    show ?thesis
    proof (cases "rmSync g d")
      case (Inl y)
      with copy Cons.prems show ?thesis by simp
    next
      case (Inr d1)
      then have d1: "d1 = AList.delete g d" using rmSync_Inr by blast
      from Inr copy Cons.prems(1) have loop: "backupLoop rest d1 b1 = (e, d', b')" by simp
      show ?thesis
      proof (cases "f = g")
        case True
        then have "map_of d1 f = None" using d1 by (simp add: delete_conv')
        with loop have "map_of d' f = None \<and> map_of b' f = map_of b1 f"
          by (rule backupLoop_untouched)
        moreover have "map_of b1 f = Some x" using True b1 g Cons.prems(2) by (simp add: update_conv')
        ultimately show ?thesis by simp
      next
        case False
        then have "map_of d1 f = Some x" using d1 Cons.prems(2) by (simp add: delete_conv')
        with loop show ?thesis by (rule Cons.IH)
      qed
    qed
  qed
qed

lemma backupLoop_complete:
  "backupLoop fs d b = (None, d', b') \<Longrightarrow>
   map_of d' = (\<lambda>f. if f \<in> set fs then None else map_of d f) \<and>
   map_of b' = (\<lambda>f. if f \<in> set fs then map_of d f else map_of b f) \<and>
   (\<forall>f \<in> set fs. \<exists>bytes. map_of d f = Some (File bytes))"
proof (induction fs arbitrary: d b)
  case Nil
  then show ?case by simp
next
  case (Cons g rest)
  show ?case
  proof (cases "copyFileSync g d (Some b)")
    case (Inl y)
    with Cons.prems show ?thesis by simp
  next
    case (Inr b1)
    note copy = this
    then obtain bytes where g: "map_of d g = Some (File bytes)"
      and b1: "b1 = AList.update g (File bytes) b"
      using copyFileSync_Inr by blast
    show ?thesis
    proof (cases "rmSync g d")
      case (Inl y)
      with copy Cons.prems show ?thesis by simp
    next
      case (Inr d1)
      then have d1: "d1 = AList.delete g d" using rmSync_Inr by blast
      from Inr copy Cons.prems(1) have loop: "backupLoop rest d1 b1 = (None, d', b')" by simp
      from Cons.IH [OF loop]
      have i1: "map_of d' = (\<lambda>f. if f \<in> set rest then None else map_of d1 f)"
        and i2: "map_of b' = (\<lambda>f. if f \<in> set rest then map_of d1 f else map_of b1 f)"
        and i3: "\<forall>f \<in> set rest. \<exists>bytes. map_of d1 f = Some (File bytes)"
        by simp_all
      have m1: "map_of d1 = (map_of d)(g := None)" using d1 by (simp add: delete_conv')
      have m2: "map_of b1 = (map_of b)(g \<mapsto> File bytes)" using b1 by (simp add: update_conv')
      from i3 m1 have notin: "g \<notin> set rest" by auto
      have c1: "map_of d' = (\<lambda>f. if f \<in> set (g # rest) then None else map_of d f)"
        using i1 m1 by auto
      have c2: "map_of b' = (\<lambda>f. if f \<in> set (g # rest) then map_of d f else map_of b f)"
        using i2 m1 m2 notin g by auto
      have c3: "\<forall>f \<in> set (g # rest). \<exists>bytes. map_of d f = Some (File bytes)"
        using i3 m1 g by (auto split: if_splits)
      from c1 c2 c3 show ?thesis by blast
    qed
  qed
qed


lemma backupDirectory_result:
  assumes "backupDirectory keep (Some d) b = (e, x, b')"
  shows "\<exists>d'. x = Some d' \<and>
           (\<forall>f y. map_of d f = Some y \<and> map_of d' f = None \<longrightarrow> map_of b' f = Some y) \<and>
           (e = None \<longrightarrow>
              map_of d' = (\<lambda>f. if keep f then None else map_of d f) \<and>
              map_of b' = map_of b ++ (map_of d |` {f. keep f}))"
proof -
  obtain d' where loop: "backupLoop (filter keep (readdirSync d)) d b = (e, d', b')"
    and x: "x = Some d'"
    using assms by (auto simp: backupDirectory_def split: prod.splits)
  have safe: "\<forall>f y. map_of d f = Some y \<and> map_of d' f = None \<longrightarrow> map_of b' f = Some y"
    using backupLoop_safe [OF loop] by fastforce
  have listed: "f \<in> set (filter keep (readdirSync d)) \<longleftrightarrow> keep f \<and> map_of d f \<noteq> None" for f
    by (auto simp: readdirSync_def map_of_eq_None_iff)
  have whole: "map_of d' = (\<lambda>f. if keep f then None else map_of d f) \<and>
              map_of b' = map_of b ++ (map_of d |` {f. keep f})" if "e = None"
  proof -
    from loop that have l: "backupLoop (filter keep (readdirSync d)) d b = (None, d', b')" by simp
    from backupLoop_complete [OF l]
    have 1: "map_of d' = (\<lambda>f. if f \<in> set (filter keep (readdirSync d)) then None else map_of d f)"
      and 2: "map_of b' = (\<lambda>f. if f \<in> set (filter keep (readdirSync d)) then map_of d f else map_of b f)"
      by simp_all
    have a: "map_of d' f = (if keep f then None else map_of d f)" for f
      by (simp only: 1 listed) auto
    have b: "map_of b' f = (map_of b ++ (map_of d |` {f. keep f})) f" for f
      by (simp only: 2 listed) (auto simp: map_add_def restrict_map_def split: option.splits)
    from a b show ?thesis by auto
  qed
  from x safe whole show ?thesis by blast
qed

text \<open>
  C2, as amended. Whatever the outcome of the cleanup stage, every entry it removed from
  the installed mods or shaderpacks directory is in the corresponding backup subfolder
  with its content. When the stage completes, the installed mods directory holds no
  file whose name ends with \<open>.jar\<close> (its other files are untouched), the installed
  shaderpacks directory is empty, and each backup subfolder holds what it held before
  the stage, overridden by the pre-cleanup \<open>.jar\<close> files of the mods and by all
  pre-cleanup shaderpacks files: exactly the pre-cleanup set when the backup folder was
  new.
\<close>

theorem cleanup_backs_up:
  assumes "MODS_DIR fs = Some mods" and "SHADERPACKS_DIR fs = Some shaders"
    and "backupFolder fs (backupDirName t) = (bm, bs)"
    and "cleanupStage t fs = (e, fs')"
  shows "\<exists>mods' shaders' bm' bs'.
           MODS_DIR fs' = Some mods' \<and> SHADERPACKS_DIR fs' = Some shaders' \<and>
           Desktop fs' (backupDirName t) = Some (bm', bs') \<and>
           (\<forall>f y. map_of mods f = Some y \<and> map_of mods' f = None \<longrightarrow> map_of bm' f = Some y) \<and>
           (\<forall>f y. map_of shaders f = Some y \<and> map_of shaders' f = None \<longrightarrow>
                  map_of bs' f = Some y) \<and>
           (e = None \<longrightarrow>
              map_of mods' = (\<lambda>f. if endsWith f ''.jar'' then None else map_of mods f) \<and>
              shaders' = [] \<and>
              map_of bm' = map_of bm ++ (map_of mods |` {f. endsWith f ''.jar''}) \<and>
              map_of bs' = map_of bs ++ map_of shaders)"
proof -
  obtain e1 x1 bm1 where m: "backupDirectory (\<lambda>f. endsWith f ''.jar'') (Some mods) bm = (e1, x1, bm1)"
    by (cases "backupDirectory (\<lambda>f. endsWith f ''.jar'') (Some mods) bm") auto
  from backupDirectory_result [OF m] obtain mods1 where x1: "x1 = Some mods1"
    and safe1: "\<forall>f y. map_of mods f = Some y \<and> map_of mods1 f = None \<longrightarrow> map_of bm1 f = Some y"
    and done1: "e1 = None \<longrightarrow>
              map_of mods1 = (\<lambda>f. if endsWith f ''.jar'' then None else map_of mods f) \<and>
              map_of bm1 = map_of bm ++ (map_of mods |` {f. endsWith f ''.jar''})"
    by blast
  show ?thesis
  proof (cases e1)
    case (Some err)
    with assms m x1 have r: "e = Some err"
      "fs' = fs\<lparr>MODS_DIR := Some mods1,
                Desktop := (Desktop fs)(backupDirName t \<mapsto> (bm1, bs))\<rparr>"
      by (auto simp: cleanupStage_def Let_def)
    have "MODS_DIR fs' = Some mods1 \<and> SHADERPACKS_DIR fs' = Some shaders \<and>
          Desktop fs' (backupDirName t) = Some (bm1, bs)"
      using r assms(2) by simp
    with safe1 r(1) show ?thesis by auto
  next
    case None
    obtain e2 x2 bs2 where s: "backupDirectory (\<lambda>f. True) (Some shaders) bs = (e2, x2, bs2)"
      by (cases "backupDirectory (\<lambda>f. True) (Some shaders) bs") auto
    from backupDirectory_result [OF s] obtain shaders2 where x2: "x2 = Some shaders2"
      and safe2: "\<forall>f y. map_of shaders f = Some y \<and> map_of shaders2 f = None \<longrightarrow>
                    map_of bs2 f = Some y"
      and done2: "e2 = None \<longrightarrow> map_of shaders2 = (\<lambda>f. None) \<and>
                    map_of bs2 = map_of bs ++ (map_of shaders |` {f. True})"
      by auto
    from None assms m x1 s x2 have r: "e = e2"
      "fs' = fs\<lparr>MODS_DIR := Some mods1, SHADERPACKS_DIR := Some shaders2,
                Desktop := (Desktop fs)(backupDirName t \<mapsto> (bm1, bs2))\<rparr>"
      by (auto simp: cleanupStage_def Let_def)
    have loc: "MODS_DIR fs' = Some mods1 \<and> SHADERPACKS_DIR fs' = Some shaders2 \<and>
          Desktop fs' (backupDirName t) = Some (bm1, bs2)"
      using r by simp
    have fin: "e = None \<longrightarrow>
              map_of mods1 = (\<lambda>f. if endsWith f ''.jar'' then None else map_of mods f) \<and>
              shaders2 = [] \<and>
              map_of bm1 = map_of bm ++ (map_of mods |` {f. endsWith f ''.jar''}) \<and>
              map_of bs2 = map_of bs ++ map_of shaders"
    proof
      assume "e = None"
      with r have "e2 = None" by simp
      moreover have "map_of shaders |` UNIV = map_of shaders" by (simp add: restrict_map_def)
      ultimately have "map_of shaders2 = Map.empty" "map_of bs2 = map_of bs ++ map_of shaders"
        using done2 by simp_all
      moreover from this(1) have "shaders2 = []" by simp
      ultimately show "map_of mods1 = (\<lambda>f. if endsWith f ''.jar'' then None else map_of mods f) \<and>
              shaders2 = [] \<and>
              map_of bm1 = map_of bm ++ (map_of mods |` {f. endsWith f ''.jar''}) \<and>
              map_of bs2 = map_of bs ++ map_of shaders"
        using done1 None by simp
    qed
    from loc safe1 safe2 fin show ?thesis by blast
  qed
qed


subsection \<open>Runs of the cleanup stage\<close>

lemma morning_name: "backupDirName morning = ''minecraft_mods_backup_2026-11-02''"
  by (simp add: morning_def backupDirName_def timestamp_date pad_vals)

lemma evening_name: "backupDirName evening = ''minecraft_mods_backup_2026-11-02''"
  by (simp add: evening_def backupDirName_def timestamp_date pad_vals)

lemma jar_names:
  "endsWith ''a.jar'' ''.jar''" "endsWith ''b.jar'' ''.jar''"
  "endsWith ''fabric-api-0.136.0+1.21.10.jar'' ''.jar''" "\<not> endsWith ''notes.txt'' ''.jar''"
  "endsWith ''modmenu-16.0.0.jar'' ''.jar''" "endsWith ''sodium-fabric-0.7.2.jar'' ''.jar''"
  by (simp_all add: endsWith_def)

lemmas cleanup_defs = cleanupStage_def backupFolder_def backupDirectory_def readdirSync_def
  copyFileSync_def rmSync_def emptyDisk_def

lemma firstRun: "cleanupStage morning firstDisk =
  (None, firstDisk\<lparr>MODS_DIR := Some [], SHADERPACKS_DIR := Some [],
     Desktop := (Desktop firstDisk)(''minecraft_mods_backup_2026-11-02'' \<mapsto> ([(''a.jar'', File ''A'')], []))\<rparr>)"
  by (simp add: cleanup_defs morning_name firstDisk_def jar_names)

text \<open>
  C2 as stated fails: a second cleanup on the same day moves \<open>b.jar\<close> into the backup
  folder of the morning, which then holds \<open>a.jar\<close> too, not exactly the pre-cleanup
  set.
\<close>

theorem same_day_backup_counterexample:
  "MODS_DIR secondDisk = Some [(''b.jar'', File ''B'')] \<and>
   SHADERPACKS_DIR secondDisk = Some [] \<and>
   fst (cleanupStage evening secondDisk) = None \<and>
   MODS_DIR (snd (cleanupStage evening secondDisk)) = Some [] \<and>
   Desktop (snd (cleanupStage evening secondDisk)) (backupDirName evening) =
     Some ([(''a.jar'', File ''A''), (''b.jar'', File ''B'')], [])"
proof -
  have sd: "secondDisk =
      firstDisk\<lparr>MODS_DIR := Some [(''b.jar'', File ''B'')], SHADERPACKS_DIR := Some [],
        Desktop := (Desktop firstDisk)(''minecraft_mods_backup_2026-11-02'' \<mapsto>
          ([(''a.jar'', File ''A'')], []))\<rparr>"
    by (simp add: secondDisk_def firstRun)
  show ?thesis
    by (simp add: sd cleanup_defs evening_name firstDisk_def jar_names)
qed

text \<open>Three mods, a text file and a shader pack, and no backup folder yet.\<close>

theorem cleanup_backs_up_witness:
  "fst (cleanupStage morning cleanDisk) = None \<and>
   (\<exists>mods' shaders' bm' bs'.
      MODS_DIR (snd (cleanupStage morning cleanDisk)) = Some mods' \<and>
      SHADERPACKS_DIR (snd (cleanupStage morning cleanDisk)) = Some shaders' \<and>
      Desktop (snd (cleanupStage morning cleanDisk)) (backupDirName morning) = Some (bm', bs') \<and>
      (\<forall>f y. map_of threeModsAndNotes f = Some y \<and> map_of mods' f = None \<longrightarrow>
             map_of bm' f = Some y) \<and>
      (\<forall>f y. map_of oneShader f = Some y \<and> map_of shaders' f = None \<longrightarrow>
             map_of bs' f = Some y) \<and>
      (fst (cleanupStage morning cleanDisk) = None \<longrightarrow>
         map_of mods' = (\<lambda>f. if endsWith f ''.jar'' then None else map_of threeModsAndNotes f) \<and>
         shaders' = [] \<and>
         map_of bm' = map_of [] ++ (map_of threeModsAndNotes |` {f. endsWith f ''.jar''}) \<and>
         map_of bs' = map_of [] ++ map_of oneShader))"
proof -
  have h1: "MODS_DIR cleanDisk = Some threeModsAndNotes" by (simp add: cleanDisk_def)
  have h2: "SHADERPACKS_DIR cleanDisk = Some oneShader" by (simp add: cleanDisk_def)
  have h3: "backupFolder cleanDisk (backupDirName morning) = ([], [])"
    by (simp add: cleanDisk_def backupFolder_def emptyDisk_def)
  have h4: "cleanupStage morning cleanDisk =
      (fst (cleanupStage morning cleanDisk), snd (cleanupStage morning cleanDisk))"
    by simp
  have ok: "fst (cleanupStage morning cleanDisk) = None"
    by (simp add: cleanDisk_def cleanup_defs morning_name threeModsAndNotes_def oneShader_def
        jar_names)
  from ok cleanup_backs_up [OF h1 h2 h3 h4] show ?thesis by (rule conjI)
qed


text \<open>
  What the code does when the cleanup stage throws: the exception leaves \<open>main\<close>, the
  run ends with the fatal error of the handler at the top level and exit status 1, on
  the disk as the stage left it, and nothing is merged or fetched.
\<close>

lemma cleanup_throw_is_fatal:
  assumes "readVersion (versionAnswer w) = Continue v"
    and "readCleanup (cleanupAnswer w)"
    and "installerAvailable w" and "javaAvailable w" and "loaderInstalls w"
    and "cleanupStage (now w) (createDirectories fs) = (Some e, fs')"
  shows "main w fs = \<lparr>ending = Fatal e, disk = fs', copied = 0, tally = zero, lines = []\<rparr> \<and>
         exitCode (ending (main w fs)) = 1"
proof -
  from assms(1-5) have m: "main w fs = install w v True fs"
    by (simp add: main_def Let_def)
  from assms(6) have "cleanupStep True (now w) (createDirectories fs) = (Some e, fs')"
    by (simp add: cleanupStep_def)
  then have "install w v True fs = stopped (Fatal e) fs'" by (rule install_cleanup_throws)
  with m have "main w fs = stopped (Fatal e) fs'" by simp
  then show ?thesis by (simp add: stopped_def exitCode_def)
qed

lemma unpacked_cleanup:
  "cleanupStage morning (createDirectories unpackedShaderDisk) =
     (Some (EISDIR ''BSL_v8.4''),
      unpackedShaderDisk\<lparr>MODS_DIR := Some [(''notes.txt'', File ''n'')],
        Desktop := (Desktop unpackedShaderDisk)(''minecraft_mods_backup_2026-11-02'' \<mapsto>
          ([(''fabric-api-0.136.0+1.21.10.jar'', File ''a''), (''modmenu-16.0.0.jar'', File ''c''),
            (''sodium-fabric-0.7.2.jar'', File ''d'')], []))\<rparr>)"
  by (simp add: createDirectories_def mkdirSync_def unpackedShaderDisk_def cleanup_defs
      morning_name threeModsAndNotes_def jar_names)

lemma yes_world:
  "readVersion (versionAnswer (answered (Some ''y'') t n)) = Continue ''1.21.10''"
  "readCleanup (cleanupAnswer (answered (Some ''y'') t n))"
  "installerAvailable (answered (Some ''y'') t n)"
  "javaAvailable (answered (Some ''y'') t n)"
  "loaderInstalls (answered (Some ''y'') t n)"
  "now (answered (Some ''y'') t n) = t"
  by (simp_all add: answered_def readVersion_def falsy_def trim_def isWhiteSpace_def
      readCleanup_def toLowerCase_def toLowerChar_def)

text \<open>
  C4. The claim is that a failing copy or delete of the cleanup stage is caught and
  logged and that the run goes on to the local merge and the remote fetch. The code
  does not do that: with an unpacked shader pack (a subdirectory) in the shaderpacks
  directory the copy throws, the run ends with a fatal error and exit status 1, the
  shaderpacks file listed after the subdirectory is not backed up, and the mod that
  waits in local staging is never merged.
\<close>

theorem cleanup_failure_aborts_run:
  "ending (main (answered (Some ''y'') morning emptyRegistry) unpackedShaderDisk) =
     Fatal (EISDIR ''BSL_v8.4'') \<and>
   exitCode (ending (main (answered (Some ''y'') morning emptyRegistry) unpackedShaderDisk)) = 1 \<and>
   LOCAL_MODS_DIR unpackedShaderDisk = Some [(''my-custom-mod.jar'', File ''m'')] \<and>
   MODS_DIR (disk (main (answered (Some ''y'') morning emptyRegistry) unpackedShaderDisk)) =
     Some [(''notes.txt'', File ''n'')] \<and>
   SHADERPACKS_DIR (disk (main (answered (Some ''y'') morning emptyRegistry) unpackedShaderDisk)) =
     Some [(''BSL_v8.4'', Directory), (''old.zip'', File ''o'')] \<and>
   lines (main (answered (Some ''y'') morning emptyRegistry) unpackedShaderDisk) = []"
proof -
  have c: "cleanupStep True morning (createDirectories unpackedShaderDisk) =
     (Some (EISDIR ''BSL_v8.4''),
      unpackedShaderDisk\<lparr>MODS_DIR := Some [(''notes.txt'', File ''n'')],
        Desktop := (Desktop unpackedShaderDisk)(''minecraft_mods_backup_2026-11-02'' \<mapsto>
          ([(''fabric-api-0.136.0+1.21.10.jar'', File ''a''), (''modmenu-16.0.0.jar'', File ''c''),
            (''sodium-fabric-0.7.2.jar'', File ''d'')], []))\<rparr>)"
    by (simp add: cleanupStep_def unpacked_cleanup)
  have m: "main (answered (Some ''y'') morning emptyRegistry) unpackedShaderDisk =
      install (answered (Some ''y'') morning emptyRegistry) ''1.21.10'' True unpackedShaderDisk"
    by (simp add: main_def Let_def yes_world)
  have l: "LOCAL_MODS_DIR unpackedShaderDisk = Some [(''my-custom-mod.jar'', File ''m'')]"
    by (simp add: unpackedShaderDisk_def stagedMod_def emptyDisk_def)
  have k: "SHADERPACKS_DIR unpackedShaderDisk =
      Some [(''BSL_v8.4'', Directory), (''old.zip'', File ''o'')]"
    by (simp add: unpackedShaderDisk_def emptyDisk_def)
  show ?thesis
    by (simp add: m install_def yes_world c stopped_def exitCode_def l k)
qed

section \<open>Claims about the local merge\<close>

lemma existsSync_update:
  "existsSync (Some (AList.update f x d)) g \<longleftrightarrow> g = f \<or> existsSync (Some d) g"
  by (simp add: existsSync_def update_conv')






















end
